theory Spec2Isabelle
  imports Complex_Main "HOL-Library.Word"
begin

section \<open>Strings and numbers of the JavaScript runtime\<close>

text \<open>
  A JavaScript string is a sequence of UTF-16 code units; \<open>length\<close>, \<open>slice\<close>,
  \<open>trim\<close>, \<open>includes\<close>, \<open>split\<close> and the regular expressions of the source
  (none has the \<open>u\<close> flag) all work on code units. A string is therefore a list of
  16-bit words. \<open>js\<close> embeds an ASCII literal; code units beyond ASCII (the Korean
  texts of the source) are written as numbers.
\<close>

type_synonym char16 = "16 word"
type_synonym jsstring = "char16 list"

definition js :: "string \<Rightarrow> jsstring" where
  "js s = map of_char s"

text \<open>The class \<open>\d\<close> of a regular expression: the ASCII digits.\<close>

definition isDigit :: "char16 \<Rightarrow> bool" where
  "isDigit c = (0x30 \<le> c \<and> c \<le> 0x39)"

text \<open>
  The class \<open>\s\<close>, which is also what \<open>String.prototype.trim\<close> removes: the
  WhiteSpace and LineTerminator code points of ECMAScript.
\<close>

definition isWhiteSpace :: "char16 \<Rightarrow> bool" where
  "isWhiteSpace c =
     ((0x09 \<le> c \<and> c \<le> 0x0D) \<or> c = 0x20 \<or> c = 0xA0 \<or> c = 0x1680 \<or>
      (0x2000 \<le> c \<and> c \<le> 0x200A) \<or> c = 0x2028 \<or> c = 0x2029 \<or> c = 0x202F \<or>
      c = 0x205F \<or> c = 0x3000 \<or> c = 0xFEFF)"

definition trim :: "jsstring \<Rightarrow> jsstring" where
  "trim s = rev (dropWhile isWhiteSpace (rev (dropWhile isWhiteSpace s)))"

definition hyphen :: char16 where
  "hyphen = 0x2D"

definition underscore :: char16 where
  "underscore = 0x5F"

definition comma :: char16 where
  "comma = 0x2C"

text \<open>\<open>s.includes(pat)\<close>: \<open>pat\<close> occurs in \<open>s\<close> as a contiguous run.\<close>

fun includes_str :: "jsstring \<Rightarrow> jsstring \<Rightarrow> bool" where
  "includes_str [] pat = (pat = [])"
| "includes_str (c # cs) pat = (take (length pat) (c # cs) = pat \<or> includes_str cs pat)"

text \<open>
  \<open>s.split(sep)\<close> for a one-character separator: \<open>n\<close> separators give \<open>n + 1\<close>
  pieces, so the result is never empty.
\<close>

fun split_str :: "char16 \<Rightarrow> jsstring \<Rightarrow> jsstring list" where
  "split_str sep [] = [[]]"
| "split_str sep (c # cs) =
     (if c = sep then [] # split_str sep cs
      else (case split_str sep cs of [] \<Rightarrow> [[c]] | p # ps \<Rightarrow> (c # p) # ps))"

fun join_str :: "jsstring \<Rightarrow> jsstring list \<Rightarrow> jsstring" where
  "join_str sep [] = []"
| "join_str sep [x] = x"
| "join_str sep (x # y # ys) = x @ sep @ join_str sep (y # ys)"

text \<open>
  A JavaScript number is an IEEE double. A finite double is represented by the rational
  number it denotes (both zeros by 0), so that \<open><\<close> on finite values is the order of
  the rationals; NaN compares false with everything.
\<close>

datatype number = NaN | NegInf | Fin rat | PosInf

fun js_less :: "number \<Rightarrow> number \<Rightarrow> bool" where
  "js_less NaN y = False"
| "js_less x NaN = False"
| "js_less NegInf NegInf = False"
| "js_less NegInf y = True"
| "js_less (Fin a) (Fin b) = (a < b)"
| "js_less (Fin a) PosInf = True"
| "js_less (Fin a) NegInf = False"
| "js_less PosInf y = False"

text \<open>The double that the source literal \<open>0.95\<close> denotes (the nearest double).\<close>

definition double_0_95 :: rat where
  "double_0_95 = 4278419646001971 / 4503599627370496"

section \<open>lib/extract/affiliateCode.ts: data model\<close>

text \<open>
  \<open>ExtractionItem\<close> and the \<open>ExtractedItem\<close> of the OpenAI module have the same
  fields; TypeScript types are structural, so one record serves both. An optional field
  is an \<open>option\<close>, \<open>None\<close> for \<open>undefined\<close>.
\<close>

record ExtractionItem =
  product_code :: jsstring
  business_reg_no :: jsstring
  company_name :: "jsstring option"
  row_index :: "number option"
  raw_text :: "jsstring option"

type_synonym ExtractedItem = ExtractionItem

datatype provider = openai | mock

text \<open>
  Values parsed from the model's JSON. \<open>total_found\<close> is declared a number, but
  \<open>parseExtractionResult\<close> stores whatever value the response holds (see there), so the
  field carries a JSON value.
\<close>

datatype json =
    JNull
  | JBool bool
  | JNum number
  | JStr jsstring
  | JArr "json list"
  | JObj "(jsstring \<times> json) list"

record ExtractionResult =
  items :: "ExtractionItem list"
  total_found :: json
  confidence :: number
  provider :: provider
  request_id :: jsstring
  client_request_id :: "jsstring option"
  x_request_id :: "jsstring option"

text \<open>
  \<open>ExtractionError\<close>, the value \<open>validateExtractionResult\<close> throws. Its \<open>message\<close>
  is a text for the user, partly built with \<open>Number.toFixed\<close>; the model identifies the
  error by its \<open>error_code\<close> and leaves the text out.
\<close>

record ExtractionError =
  error_code :: jsstring
  err_provider :: provider
  err_request_id :: jsstring
  err_client_request_id :: "jsstring option"
  err_x_request_id :: "jsstring option"

text \<open>
  \<open>EnvConfig\<close> of \<open>$lib/util/env\<close>: the record has the fields the functions below
  read. \<open>PRODUCT_CODE_REGEX\<close> is a RegExp that \<open>loadEnvConfig\<close> builds without flags
  and that is used through \<open>test\<close> only, which then keeps no state: hence a predicate
  on strings. The API key and the model are strings in the interface; the record
  admits \<open>undefined\<close> as well, which the truthiness tests of the code treat like the
  empty string.
\<close>

record EnvConfig =
  MOCK_LLM :: bool
  OPENAI_API_KEY :: "jsstring option"
  OPENAI_MODEL :: "jsstring option"
  MIN_CONFIDENCE :: number
  PRODUCT_CODE_REGEX :: "jsstring \<Rightarrow> bool"
  SENDER_EMAIL :: jsstring
  RECIPIENT_EMAIL :: jsstring

section \<open>lib/extract/affiliateCode.ts: normalisation\<close>

text \<open>
  \<open>normalizeBusinessRegNo\<close>: \<open>replace(/\D/g, '')\<close> keeps the digits; ten digits are
  laid out as \<open>slice(0, 3)\<close>, \<open>slice(3, 5)\<close>, \<open>slice(5)\<close> joined by hyphens; any
  other number of digits returns \<open>businessRegNo.trim()\<close>.
\<close>

definition normalizeBusinessRegNo :: "jsstring \<Rightarrow> jsstring" where
  "normalizeBusinessRegNo businessRegNo =
     (let digits = filter isDigit businessRegNo in
      if length digits = 10
      then take 3 digits @ [hyphen] @ take 2 (drop 3 digits) @ [hyphen] @ drop 5 digits
      else trim businessRegNo)"

text \<open>
  \<open>normalizeProductCode\<close>: \<open>trim\<close>, then \<open>replace(/\s+/g, '')\<close>, then
  \<open>replace(/[-_]/g, '')\<close>.
\<close>

definition normalizeProductCode :: "jsstring \<Rightarrow> jsstring" where
  "normalizeProductCode code =
     filter (\<lambda>c. c \<noteq> hyphen \<and> c \<noteq> underscore) (filter (\<lambda>c. \<not> isWhiteSpace c) (trim code))"

definition validateProductCode :: "jsstring \<Rightarrow> (jsstring \<Rightarrow> bool) \<Rightarrow> bool" where
  "validateProductCode code regex = regex code"

text \<open>
  \<open>validateExtractionResult\<close> returns nothing; it either throws or rewrites the items
  of its argument in place. The model returns the error thrown, if any, together with
  the state of the result object when the function is left. A registration number is
  normalised only if it is truthy, that is, not the empty string.
\<close>

definition validateExtractionResult ::
  "ExtractionResult \<Rightarrow> EnvConfig \<Rightarrow> ExtractionError option \<times> ExtractionResult" where
  "validateExtractionResult result config =
     (if items result = [] then
        (Some \<lparr>error_code = js ''extraction_failed'',
               err_provider = provider result,
               err_request_id = request_id result,
               err_client_request_id = client_request_id result,
               err_x_request_id = x_request_id result\<rparr>, result)
      else if js_less (confidence result) (MIN_CONFIDENCE config) then
        (Some \<lparr>error_code = js ''low_confidence'',
               err_provider = provider result,
               err_request_id = request_id result,
               err_client_request_id = client_request_id result,
               err_x_request_id = x_request_id result\<rparr>, result)
      else
        (None,
         result\<lparr>items :=
           map (\<lambda>item. if business_reg_no item \<noteq> []
                       then item\<lparr>business_reg_no := normalizeBusinessRegNo (business_reg_no item)\<rparr>
                       else item)
               (items result)\<rparr>))"

text \<open>
  \<open>getMockResult\<close>. \<open>uuid\<close> is the value \<open>uuidv4()\<close> returns. The first piece of
  \<open>targetCode.split(',')\<close> always exists (\<open>split_str\<close> never returns the empty list).
\<close>

definition getMockResult :: "jsstring \<Rightarrow> jsstring \<Rightarrow> ExtractionResult" where
  "getMockResult uuid targetCode =
     (let firstTarget = trim (hd (split_str comma targetCode)) in
      \<lparr>items =
         [\<lparr>product_code = firstTarget,
           business_reg_no = js ''123-45-67890'',
           company_name = Some ([0xD14C, 0xC2A4, 0xD2B8, 0xC5C5, 0xCCB4] @ js ''A''),
           row_index = Some (Fin 1),
           raw_text = Some (js ''[MOCK] '' @ [0xD589] @ js ''1: '' @ [0xC0C1, 0xD488, 0xBC88, 0xD638]
             @ js '' '' @ firstTarget @ js '', ''
             @ [0xC0AC, 0xC5C5, 0xC790, 0xB4F1, 0xB85D, 0xBC88, 0xD638] @ js '' 123-45-67890, ''
             @ [0xC5C5, 0xCCB4, 0xBA85] @ js '' '' @ [0xD14C, 0xC2A4, 0xD2B8, 0xC5C5, 0xCCB4]
             @ js ''A'')\<rparr>,
          \<lparr>product_code = firstTarget,
           business_reg_no = js ''987-65-43210'',
           company_name = Some ([0xD14C, 0xC2A4, 0xD2B8, 0xC5C5, 0xCCB4] @ js ''B''),
           row_index = Some (Fin 2),
           raw_text = Some (js ''[MOCK] '' @ [0xD589] @ js ''2: '' @ [0xC0C1, 0xD488, 0xBC88, 0xD638]
             @ js '' '' @ firstTarget @ js '', ''
             @ [0xC0AC, 0xC5C5, 0xC790, 0xB4F1, 0xB85D, 0xBC88, 0xD638] @ js '' 987-65-43210, ''
             @ [0xC5C5, 0xCCB4, 0xBA85] @ js '' '' @ [0xD14C, 0xC2A4, 0xD2B8, 0xC5C5, 0xCCB4]
             @ js ''B'')\<rparr>],
       total_found = JNum (Fin 2),
       confidence = Fin double_0_95,
       provider = mock,
       request_id = uuid,
       client_request_id = None,
       x_request_id = None\<rparr>)"

section \<open>lib/llm/openai.ts: errors and their classification\<close>

text \<open>
  A thrown value. \<open>APIError status message\<close> is an instance of the SDK's
  \<open>OpenAI.APIError\<close> (the status is undefined for a connection error);
  \<open>Error name message\<close> is any other instance of \<open>Error\<close>; \<open>NonError s\<close> is a
  thrown value that is no \<open>Error\<close>, with \<open>String(v) = s\<close>.
\<close>

datatype thrown =
    APIError "nat option" jsstring
  | Error jsstring jsstring
  | NonError jsstring

text \<open>\<open>String(e)\<close>, for an \<open>Error\<close> the result of \<open>Error.prototype.toString\<close>.\<close>

definition error_toString :: "jsstring \<Rightarrow> jsstring \<Rightarrow> jsstring" where
  "error_toString name msg =
     (if name = [] then msg else if msg = [] then name else name @ js '': '' @ msg)"

fun to_String :: "thrown \<Rightarrow> jsstring" where
  "to_String (APIError st msg) = error_toString (js ''Error'') msg"
| "to_String (Error name msg) = error_toString name msg"
| "to_String (NonError s) = s"

definition new_Error :: "jsstring \<Rightarrow> thrown" where
  "new_Error msg = Error (js ''Error'') msg"

definition PRIMARY_MODEL :: jsstring where
  "PRIMARY_MODEL = js ''gpt-5-mini-2025-08-07''"

definition FALLBACK_MODEL :: jsstring where
  "FALLBACK_MODEL = js ''gpt-5-mini''"

definition LEGACY_FALLBACK :: jsstring where
  "LEGACY_FALLBACK = js ''gpt-4o-mini''"

definition MAX_RETRIES :: nat where
  "MAX_RETRIES = 3"

definition INITIAL_DELAY_MS :: nat where
  "INITIAL_DELAY_MS = 1000"

fun isRetryableError :: "thrown \<Rightarrow> bool" where
  "isRetryableError (APIError st msg) =
     (case st of None \<Rightarrow> False | Some n \<Rightarrow> n = 429 \<or> (500 \<le> n \<and> n < 600))"
| "isRetryableError (Error name msg) = includes_str msg (js ''fetch'')"
| "isRetryableError (NonError s) = False"

fun isModelNotFoundError :: "thrown \<Rightarrow> bool" where
  "isModelNotFoundError (APIError st msg) =
     (st = Some 404
      \<or> (includes_str msg (js ''model'') \<and> includes_str msg (js ''not found''))
      \<or> includes_str msg (js ''does not exist''))"
| "isModelNotFoundError (Error name msg) = False"
| "isModelNotFoundError (NonError s) = False"

section \<open>lib/llm/openai.ts: parsing the model's answer\<close>

record OpenAIExtractionResult =
  result_items :: "ExtractedItem list"
  result_total_found :: json
  result_confidence :: number
  result_raw_text :: "json option"

record OpenAICallMetadata =
  meta_client_request_id :: jsstring
  meta_x_request_id :: "jsstring option"
  model_used :: jsstring

record OpenAIResponse =
  result :: OpenAIExtractionResult
  metadata :: OpenAICallMetadata

text \<open>
  Reading a property of a parsed value that is not \<open>null\<close>. An object is the list of
  its own properties (the keys are distinct); the keys the parser reads are no built-in
  property of a string, number, boolean or array, so these give \<open>undefined\<close>. Reading a
  property of \<open>null\<close> throws a TypeError.
\<close>

fun get_prop :: "json \<Rightarrow> jsstring \<Rightarrow> json option" where
  "get_prop (JObj kvs) key = map_of kvs key"
| "get_prop v key = None"

definition null_TypeError :: "jsstring \<Rightarrow> thrown" where
  "null_TypeError key =
     Error (js ''TypeError'')
       (js ''Cannot read properties of null (reading '' @ [0x27] @ key @ [0x27] @ js '')'')"

fun show_nat :: "nat \<Rightarrow> jsstring" where
  "show_nat n = (if n < 10 then [of_nat (48 + n)] else show_nat (n div 10) @ [of_nat (48 + n mod 10)])"

declare show_nat.simps [simp del]

text \<open>The callback of \<open>parsed.items.map\<close>, for the item at \<open>index\<close>.\<close>

definition parse_item :: "nat \<Rightarrow> json \<Rightarrow> thrown + ExtractedItem" where
  "parse_item index item =
     (if item = JNull then Inl (null_TypeError (js ''product_code''))
      else
        (case (get_prop item (js ''product_code''), get_prop item (js ''business_reg_no'')) of
           (Some (JStr pc), Some (JStr brn)) \<Rightarrow>
             Inr \<lparr>product_code = pc,
                  business_reg_no = brn,
                  company_name = (case get_prop item (js ''company_name'') of
                                    Some (JStr s) \<Rightarrow> Some s | _ \<Rightarrow> None),
                  row_index = (case get_prop item (js ''row_index'') of
                                 Some (JNum n) \<Rightarrow> Some n | _ \<Rightarrow> None),
                  raw_text = (case get_prop item (js ''raw_text'') of
                                Some (JStr s) \<Rightarrow> Some s | _ \<Rightarrow> None)\<rparr>
         | _ \<Rightarrow>
             Inl (new_Error (js ''Invalid item at index '' @ show_nat index
                    @ js '': missing product_code or business_reg_no''))))"

text \<open>\<open>map\<close> stops at the first item whose callback throws.\<close>

fun parse_items :: "nat \<Rightarrow> json list \<Rightarrow> thrown + ExtractedItem list" where
  "parse_items index [] = Inr []"
| "parse_items index (item # rest) =
     (case parse_item index item of
        Inl e \<Rightarrow> Inl e
      | Inr it \<Rightarrow>
          (case parse_items (Suc index) rest of
             Inl e \<Rightarrow> Inl e
           | Inr its \<Rightarrow> Inr (it # its)))"

text \<open>
  The body of the \<open>try\<close> after \<open>JSON.parse\<close>. \<open>parsed.total_found ?? items.length\<close>
  takes the length only when the property is \<open>undefined\<close> or \<open>null\<close>.
\<close>

definition parse_parsed :: "json \<Rightarrow> thrown + OpenAIExtractionResult" where
  "parse_parsed parsed =
     (if parsed = JNull then Inl (null_TypeError (js ''items''))
      else
        (case get_prop parsed (js ''items'') of
           Some (JArr arr) \<Rightarrow>
             (case get_prop parsed (js ''confidence'') of
                Some (JNum c) \<Rightarrow>
                  (case parse_items 0 arr of
                     Inl e \<Rightarrow> Inl e
                   | Inr its \<Rightarrow>
                       Inr \<lparr>result_items = its,
                            result_total_found =
                              (case get_prop parsed (js ''total_found'') of
                                 None \<Rightarrow> JNum (Fin (of_nat (length its)))
                               | Some JNull \<Rightarrow> JNum (Fin (of_nat (length its)))
                               | Some v \<Rightarrow> v),
                            result_confidence = c,
                            result_raw_text = get_prop parsed (js ''raw_text'')\<rparr>)
              | _ \<Rightarrow>
                  Inl (new_Error (js ''Missing or invalid '' @ [0x22] @ js ''confidence''
                         @ [0x22] @ js '' field'')))
         | _ \<Rightarrow>
             Inl (new_Error (js ''Missing or invalid '' @ [0x22] @ js ''items'' @ [0x22]
                    @ js '' array in response''))))"

text \<open>The position of the first occurrence of \<open>pat\<close> in a string.\<close>

fun find_str :: "jsstring \<Rightarrow> jsstring \<Rightarrow> nat option" where
  "find_str pat [] = (if pat = [] then Some 0 else None)"
| "find_str pat (c # cs) =
     (if take (length pat) (c # cs) = pat then Some 0 else map_option Suc (find_str pat cs))"

definition fence :: jsstring where
  "fence = [0x60, 0x60, 0x60]"

text \<open>
  The capture group of \<open>/```(?:json)?\s*([\s\S]*?)```/\<close>. The match starts at the
  first fence; \<open>json\<close> and the white space after it are taken greedily, and the lazy
  group ends at the next fence. If no fence follows, giving back \<open>json\<close> or white
  space, or starting at a later fence, finds none either.
\<close>

definition fence_match :: "jsstring \<Rightarrow> jsstring option" where
  "fence_match s =
     (case find_str fence s of
        None \<Rightarrow> None
      | Some i \<Rightarrow>
          (let r = drop (i + 3) s;
               r1 = (if take 4 r = js ''json'' then drop 4 r else r);
               r2 = dropWhile isWhiteSpace r1
           in (case find_str fence r2 of
                 None \<Rightarrow> None
               | Some k \<Rightarrow> Some (take k r2))))"

text \<open>\<open>/\{[\s\S]*\}/\<close>: from the first opening brace to the last closing brace after it.\<close>

definition brace_match :: "jsstring \<Rightarrow> jsstring option" where
  "brace_match s =
     (let r = dropWhile (\<lambda>c. c \<noteq> 0x7B) s in
      if r = [] then None
      else
        (let t = rev (dropWhile (\<lambda>c. c \<noteq> 0x7D) (rev (tl r))) in
         if t = [] then None else Some (0x7B # t)))"

text \<open>
  \<open>parseExtractionResult\<close>. \<open>JSON_parse\<close> is the runtime's \<open>JSON.parse\<close>, which
  returns the parsed value or throws.
\<close>

definition parseExtractionResult ::
  "(jsstring \<Rightarrow> thrown + json) \<Rightarrow> jsstring \<Rightarrow> thrown + OpenAIExtractionResult" where
  "parseExtractionResult JSON_parse text_in =
     (let jsonStr = trim text_in;
          jsonStr1 = (case fence_match jsonStr of Some cap \<Rightarrow> trim cap | None \<Rightarrow> jsonStr);
          jsonStr2 = (case brace_match jsonStr1 of Some m \<Rightarrow> m | None \<Rightarrow> jsonStr1)
      in (case (case JSON_parse jsonStr2 of
                  Inl e \<Rightarrow> Inl e
                | Inr parsed \<Rightarrow> parse_parsed parsed) of
            Inl e \<Rightarrow>
              Inl (new_Error (js ''Failed to parse JSON from LLM response: '' @ to_String e))
          | Inr r \<Rightarrow> Inr r))"

section \<open>lib/llm/openai.ts: calling the provider\<close>

text \<open>
  The request of \<open>client.responses.create\<close> (model, prompt, image as a data URL, and
  the \<open>X-Client-Request-Id\<close> header) and the part of its response that the code reads:
  \<open>response.output\<close>, the \<open>type\<close> and \<open>content\<close> of an output item, the \<open>text\<close> of a
  content part.
\<close>

record api_request =
  req_model :: jsstring
  req_input_text :: jsstring
  req_image_url :: jsstring
  req_client_request_id :: jsstring

record content_part =
  part_text :: "jsstring option"

record output_item =
  item_type :: jsstring
  item_content :: "content_part list option"

record api_response =
  response_output :: "output_item list option"

text \<open>
  The outside world of the module: \<open>client.models.list()\<close> gives the model ids or throws;
  \<open>client.responses.create\<close> answers the call of attempt number \<open>n\<close>, by a response or
  by a thrown value; \<open>JSON.parse\<close>. What the module does to the outside world is a list
  of events; \<open>Sleep ms\<close> is the backoff delay without its random jitter (below 500 ms).
\<close>

record openai_env =
  models_list :: "thrown + jsstring list"
  responses_create :: "nat \<Rightarrow> api_request \<Rightarrow> thrown + api_response"
  JSON_parse :: "jsstring \<Rightarrow> thrown + json"

datatype event =
    ModelsList
  | ResponsesCreate api_request
  | Sleep nat
  | SendEmail

text \<open>
  \<open>getAvailableModel\<close>. The module variable \<open>availableModel\<close> is passed in and returned.
  A string is truthy when it is not empty.
\<close>

definition modelPriority :: "jsstring list" where
  "modelPriority = [PRIMARY_MODEL, FALLBACK_MODEL, LEGACY_FALLBACK]"

definition truthy :: "jsstring option \<Rightarrow> bool" where
  "truthy v = (case v of None \<Rightarrow> False | Some s \<Rightarrow> s \<noteq> [])"

definition getAvailableModel ::
  "'a openai_env_scheme \<Rightarrow> jsstring option \<Rightarrow> jsstring option
   \<Rightarrow> jsstring \<times> jsstring option \<times> event list" where
  "getAvailableModel env availableModel configuredModel =
     (if truthy availableModel then (the availableModel, availableModel, [])
      else if truthy configuredModel \<and> configuredModel \<noteq> Some PRIMARY_MODEL then
        (the configuredModel, configuredModel, [])
      else
        (case models_list env of
           Inr modelIds \<Rightarrow>
             (case find (\<lambda>m. m \<in> set modelIds) modelPriority of
                Some m \<Rightarrow> (m, Some m, [ModelsList])
              | None \<Rightarrow> (LEGACY_FALLBACK, Some LEGACY_FALLBACK, [ModelsList]))
         | Inl e \<Rightarrow> (LEGACY_FALLBACK, Some LEGACY_FALLBACK, [ModelsList])))"

text \<open>
  The text of the first output item of type \<open>message\<close>:
  \<open>messageOutput?.content?.[0]?.text\<close>, or the empty string.
\<close>

definition output_text :: "api_response \<Rightarrow> jsstring" where
  "output_text response =
     (case response_output response of
        None \<Rightarrow> []
      | Some out \<Rightarrow>
          (case find (\<lambda>item. item_type item = js ''message'') out of
             None \<Rightarrow> []
           | Some messageOutput \<Rightarrow>
               (case item_content messageOutput of
                  None \<Rightarrow> []
                | Some [] \<Rightarrow> []
                | Some (p # ps) \<Rightarrow> (case part_text p of None \<Rightarrow> [] | Some t \<Rightarrow> t))))"

text \<open>The body of the \<open>try\<close> block of one attempt: the value returned or thrown.\<close>

definition try_body ::
  "'a openai_env_scheme \<Rightarrow> nat \<Rightarrow> api_request \<Rightarrow> thrown + OpenAIResponse" where
  "try_body env attempt req =
     (case responses_create env attempt req of
        Inl e \<Rightarrow> Inl e
      | Inr response \<Rightarrow>
          (let outputText = output_text response in
           if outputText = [] then Inl (new_Error (js ''No text output in response''))
           else
             (case parseExtractionResult (JSON_parse env) outputText of
                Inl e \<Rightarrow> Inl e
              | Inr r \<Rightarrow>
                  Inr \<lparr>result = r,
                       metadata = \<lparr>meta_client_request_id = req_client_request_id req,
                                   meta_x_request_id = None,
                                   model_used = req_model req\<rparr>\<rparr>)))"

text \<open>\<open>lastError = error instanceof Error ? error : new Error(String(error))\<close>.\<close>

fun as_Error :: "thrown \<Rightarrow> thrown" where
  "as_Error (NonError s) = new_Error s"
| "as_Error e = e"

type_synonym 'a outcome = "(thrown + 'a) \<times> jsstring option \<times> event list"

definition after_events :: "event list \<Rightarrow> 'a outcome \<Rightarrow> 'a outcome" where
  "after_events evs out = (case out of (r, am, evs') \<Rightarrow> (r, am, evs @ evs'))"

text \<open>
  The \<open>for\<close> loop of \<open>extractWithOpenAI\<close>, from the iteration \<open>attempt\<close> on, with the
  loop variables \<open>modelToUse\<close> and \<open>lastError\<close> and the module variable
  \<open>availableModel\<close>. Each \<open>continue\<close>, and the end of the \<open>catch\<close> block, go to the
  loop's \<open>attempt++\<close>. The result is the value returned or thrown, the final
  \<open>availableModel\<close> and the events in order.
\<close>

function extract_loop ::
  "'a openai_env_scheme \<Rightarrow> api_request \<Rightarrow> nat \<Rightarrow> jsstring \<Rightarrow> thrown option \<Rightarrow> jsstring option
   \<Rightarrow> OpenAIResponse outcome" where
  "extract_loop env req attempt modelToUse lastError availableModel =
     (if attempt < MAX_RETRIES then
        (case try_body env attempt (req\<lparr>req_model := modelToUse\<rparr>) of
           Inr response \<Rightarrow>
             (Inr response, availableModel, [ResponsesCreate (req\<lparr>req_model := modelToUse\<rparr>)])
         | Inl error \<Rightarrow>
             (if isModelNotFoundError error \<and> modelToUse \<noteq> LEGACY_FALLBACK then
                (let next = (if modelToUse = PRIMARY_MODEL then FALLBACK_MODEL
                             else LEGACY_FALLBACK)
                 in after_events [ResponsesCreate (req\<lparr>req_model := modelToUse\<rparr>)]
                      (extract_loop env req (attempt + 1) next (Some (as_Error error)) (Some next)))
              else if isRetryableError error \<and> attempt < MAX_RETRIES - 1 then
                after_events [ResponsesCreate (req\<lparr>req_model := modelToUse\<rparr>),
                              Sleep (INITIAL_DELAY_MS * 2 ^ attempt)]
                  (extract_loop env req (attempt + 1) modelToUse (Some (as_Error error))
                     availableModel)
              else
                after_events [ResponsesCreate (req\<lparr>req_model := modelToUse\<rparr>)]
                  (extract_loop env req (attempt + 1) modelToUse (Some (as_Error error))
                     availableModel)))
      else
        (Inl (case lastError of
                Some e \<Rightarrow> e
              | None \<Rightarrow> new_Error (js ''OpenAI extraction failed after retries'')),
         availableModel, []))"
  by pat_completeness auto
termination
  by (relation "measure (\<lambda>(env, req, attempt, modelToUse, lastError, availableModel).
                   MAX_RETRIES - attempt)") auto

declare extract_loop.simps [simp del]

text \<open>
  \<open>extractWithOpenAI\<close>. \<open>clientRequestId\<close> is the value \<open>uuidv4()\<close> returns. The cached
  client object has no part in what follows and is left out.
\<close>

definition extractWithOpenAI ::
  "'a openai_env_scheme \<Rightarrow> jsstring option \<Rightarrow> jsstring \<Rightarrow> jsstring \<Rightarrow> jsstring \<Rightarrow> EnvConfig
   \<Rightarrow> jsstring \<Rightarrow> OpenAIResponse outcome" where
  "extractWithOpenAI env availableModel clientRequestId imageBase64 mimeType config systemPrompt =
     (if \<not> truthy (OPENAI_API_KEY config) then
        (Inl (new_Error (js ''OPENAI_API_KEY is not configured. Please set it in .env file.'')),
         availableModel, [])
      else
        (case getAvailableModel env availableModel (OPENAI_MODEL config) of
           (modelToUse, am, evs) \<Rightarrow>
             after_events evs
               (extract_loop env
                  \<lparr>req_model = modelToUse,
                   req_input_text = systemPrompt,
                   req_image_url = js ''data:'' @ mimeType @ js '';base64,'' @ imageBase64,
                   req_client_request_id = clientRequestId\<rparr>
                  0 modelToUse None am)))"

section \<open>lib/extract/affiliateCode.ts: extraction\<close>

text \<open>\<open>x || ''\<close> for a string or \<open>undefined\<close>.\<close>

definition or_empty :: "jsstring option \<Rightarrow> jsstring" where
  "or_empty v = (case v of None \<Rightarrow> [] | Some s \<Rightarrow> (if s = [] then [] else s))"

text \<open>
  \<open>extractBusinessRegNo\<close>. \<open>createExtractionPrompt\<close> builds a fixed Korean instruction
  text around the target codes; the text goes to the provider untouched and nothing
  here depends on its wording, so the builder is a parameter. \<open>uuid\<close> is the value of
  the one \<open>uuidv4()\<close> call made on either path.
\<close>

definition extractBusinessRegNo ::
  "'a openai_env_scheme \<Rightarrow> (jsstring \<Rightarrow> jsstring) \<Rightarrow> jsstring option \<Rightarrow> jsstring \<Rightarrow> jsstring
   \<Rightarrow> jsstring \<Rightarrow> jsstring \<Rightarrow> EnvConfig \<Rightarrow> ExtractionResult outcome" where
  "extractBusinessRegNo env createExtractionPrompt availableModel uuid imageBase64 mimeType
     targetCode config =
     (if MOCK_LLM config then (Inr (getMockResult uuid targetCode), availableModel, [])
      else
        (case extractWithOpenAI env availableModel uuid imageBase64 mimeType config
                (createExtractionPrompt targetCode) of
           (Inl e, am, evs) \<Rightarrow> (Inl e, am, evs)
         | (Inr response, am, evs) \<Rightarrow>
             (Inr \<lparr>items =
                     map (\<lambda>item. \<lparr>product_code = product_code item,
                                  business_reg_no = or_empty (Some (business_reg_no item)),
                                  company_name = Some (or_empty (company_name item)),
                                  row_index = row_index item,
                                  raw_text = raw_text item\<rparr>)
                         (result_items (result response)),
                   total_found = result_total_found (result response),
                   confidence = result_confidence (result response),
                   provider = openai,
                   request_id = meta_client_request_id (metadata response),
                   client_request_id = Some (meta_client_request_id (metadata response)),
                   x_request_id = meta_x_request_id (metadata response)\<rparr>,
              am, evs)))"

section \<open>The route \<open>POST /api/process-once\<close>\<close>

text \<open>
  What the handler reads of the request: the \<open>content-type\<close> header and the form,
  whose parsing may throw; of the form, the fields \<open>productCode\<close> and \<open>image\<close>, each
  absent, a string or a file. A file has a name, a size, a media type and its bytes,
  given here in the Base64 form the handler turns them into.
\<close>

record upload_file =
  file_name :: jsstring
  file_size :: nat
  file_type :: jsstring
  file_base64 :: jsstring

datatype form_value = FormString jsstring | FormFile upload_file

record form_data =
  form_productCode :: "form_value option"
  form_image :: "form_value option"

record http_request =
  content_type :: "jsstring option"
  formData :: "thrown + form_data"

text \<open>
  The answers. As for \<open>ExtractionError\<close>, the \<open>message\<close> texts are left out; an answer
  is identified by its HTTP status and \<open>error_code\<close>.
\<close>

record ErrorResponse =
  resp_error_code :: jsstring
  resp_request_id :: jsstring
  resp_provider :: "provider option"
  resp_client_request_id :: "jsstring option"
  resp_x_request_id :: "jsstring option"

record ResponseItem =
  item_product_code :: jsstring
  item_business_reg_no :: jsstring
  item_company_name :: "jsstring option"
  item_row_index :: "number option"

record email_error_details =
  details_name :: "jsstring option"
  details_message :: "jsstring option"

record EmailDebugInfo =
  attempted :: bool
  debug_success :: bool
  message_id :: "jsstring option"
  debug_error :: "jsstring option"
  error_details :: "email_error_details option"
  sender_email :: jsstring
  recipient_email :: jsstring

record SuccessResponse =
  ok_product_code :: jsstring
  ok_items :: "ResponseItem list"
  ok_total_found :: json
  ok_confidence :: number
  emailed :: bool
  email_debug :: EmailDebugInfo
  ok_provider :: provider
  ok_request_id :: jsstring
  ok_client_request_id :: "jsstring option"
  ok_x_request_id :: "jsstring option"

datatype http_response =
    Failure nat ErrorResponse
  | Success SuccessResponse

text \<open>
  The collaborators of the handler, as parameters. \<open>loadEnvConfig\<close> reads the
  environment of the process (and caches what it built): its outcome, the configuration
  or a thrown error, is given. \<open>generateExcel\<close> followed by \<open>excelToBase64\<close>,
  \<open>generateExcelFilename\<close> and \<open>sendResultEmail\<close> belong to the modules
  \<open>$lib/output/excel\<close> and \<open>$lib/email/resend\<close>; the time stamp is
  \<open>new Date().toISOString()\<close>.
\<close>

record ExcelDataItem =
  excel_product_code :: jsstring
  excel_business_reg_no :: jsstring
  excel_company_name :: "jsstring option"
  excel_row_index :: "number option"
  processed_at :: jsstring

record email_result =
  success :: bool
  messageId :: "jsstring option"
  email_error :: "jsstring option"

record server_env = openai_env +
  loadEnvConfig :: "thrown + EnvConfig"
  generateExcel :: "ExcelDataItem list \<Rightarrow> thrown + jsstring"
  generateExcelFilename :: jsstring
  sendResultEmail ::
    "jsstring \<Rightarrow> ExtractionItem list \<Rightarrow> jsstring \<Rightarrow> jsstring \<Rightarrow> EnvConfig \<Rightarrow> thrown + email_result"
  now_ISO :: jsstring

definition MAX_PAYLOAD_SIZE :: nat where
  "MAX_PAYLOAD_SIZE = 4500000"

definition allowedTypes :: "jsstring list" where
  "allowedTypes = [js ''image/jpeg'', js ''image/png'', js ''image/webp'', js ''image/gif'']"

definition error_json :: "nat \<Rightarrow> jsstring \<Rightarrow> jsstring \<Rightarrow> http_response" where
  "error_json status code requestId =
     Failure status \<lparr>resp_error_code = code, resp_request_id = requestId, resp_provider = None,
                     resp_client_request_id = None, resp_x_request_id = None\<rparr>"

text \<open>The outermost \<open>catch\<close> of the handler.\<close>

fun unexpected_error :: "jsstring \<Rightarrow> thrown \<Rightarrow> http_response" where
  "unexpected_error requestId (NonError s) = error_json 500 (js ''internal_error'') requestId"
| "unexpected_error requestId (APIError st msg) =
     (if includes_str msg (js ''Missing required environment variables'')
      then error_json 500 (js ''configuration_error'') requestId
      else error_json 500 (js ''internal_error'') requestId)"
| "unexpected_error requestId (Error name msg) =
     (if includes_str msg (js ''Missing required environment variables'')
      then error_json 500 (js ''configuration_error'') requestId
      else error_json 500 (js ''internal_error'') requestId)"

text \<open>Step 4: the codes of the \<open>productCode\<close> field, normalised, the empty ones dropped.\<close>

definition productCodes_of :: "jsstring \<Rightarrow> jsstring list" where
  "productCodes_of targetCodeRaw =
     filter (\<lambda>c. length c > 0) (map normalizeProductCode (split_str comma targetCodeRaw))"

text \<open>Step 13: sending the mail; a failure is recorded, never thrown on.\<close>

definition send_email ::
  "'a server_env_scheme \<Rightarrow> EnvConfig \<Rightarrow> jsstring list \<Rightarrow> ExtractionItem list \<Rightarrow> jsstring
   \<Rightarrow> bool \<times> EmailDebugInfo" where
  "send_email env config productCodes its excelBase64 =
     (case sendResultEmail env (join_str [comma] productCodes) its excelBase64
             (generateExcelFilename env) config of
        Inr emailResult \<Rightarrow>
          (success emailResult,
           \<lparr>attempted = True,
            debug_success = success emailResult,
            message_id = messageId emailResult,
            debug_error = email_error emailResult,
            error_details =
              (if success emailResult then None
               else Some \<lparr>details_name = None, details_message = email_error emailResult\<rparr>),
            sender_email = SENDER_EMAIL config,
            recipient_email = RECIPIENT_EMAIL config\<rparr>)
      | Inl e \<Rightarrow>
          (False,
           \<lparr>attempted = True,
            debug_success = False,
            message_id = None,
            debug_error = Some (case e of APIError st msg \<Rightarrow> msg | Error name msg \<Rightarrow> msg
                                | NonError s \<Rightarrow> s),
            error_details =
              Some \<lparr>details_name = Some (case e of APIError st msg \<Rightarrow> js ''Error''
                                          | Error name msg \<Rightarrow> name
                                          | NonError s \<Rightarrow> js ''Unknown''),
                    details_message = Some (case e of APIError st msg \<Rightarrow> msg
                                            | Error name msg \<Rightarrow> msg | NonError s \<Rightarrow> s)\<rparr>,
            sender_email = SENDER_EMAIL config,
            recipient_email = RECIPIENT_EMAIL config\<rparr>))"

text \<open>Steps 9 to 14: extraction, validation, export, mail and the answer.\<close>

definition process_image ::
  "'a server_env_scheme \<Rightarrow> (jsstring \<Rightarrow> jsstring) \<Rightarrow> jsstring option \<Rightarrow> jsstring \<Rightarrow> jsstring
   \<Rightarrow> EnvConfig \<Rightarrow> jsstring list \<Rightarrow> upload_file \<Rightarrow> http_response \<times> jsstring option \<times> event list"
  where
  "process_image env createExtractionPrompt availableModel requestId uuid config productCodes file =
     (case extractBusinessRegNo env createExtractionPrompt availableModel uuid (file_base64 file)
             (file_type file) (join_str [comma] productCodes) config of
        (Inl e, am, evs) \<Rightarrow> (error_json 422 (js ''extraction_error'') requestId, am, evs)
      | (Inr extractionResult, am, evs) \<Rightarrow>
          (case validateExtractionResult extractionResult config of
             (Some err, unchanged) \<Rightarrow>
               (Failure 422 \<lparr>resp_error_code = error_code err,
                             resp_request_id = requestId,
                             resp_provider = Some (err_provider err),
                             resp_client_request_id = err_client_request_id err,
                             resp_x_request_id = err_x_request_id err\<rparr>, am, evs)
           | (None, validated) \<Rightarrow>
               (case generateExcel env
                       (map (\<lambda>item. \<lparr>excel_product_code = product_code item,
                                       excel_business_reg_no = business_reg_no item,
                                       excel_company_name = company_name item,
                                       excel_row_index = row_index item,
                                       processed_at = now_ISO env\<rparr>)
                            (items validated)) of
                  Inl e \<Rightarrow> (unexpected_error requestId e, am, evs)
                | Inr excelBase64 \<Rightarrow>
                    (case send_email env config productCodes (items validated) excelBase64 of
                       (sent, emailDebug) \<Rightarrow>
                         (Success
                            \<lparr>ok_product_code = join_str [comma] productCodes,
                             ok_items =
                               map (\<lambda>item. \<lparr>item_product_code = product_code item,
                                             item_business_reg_no = business_reg_no item,
                                             item_company_name = company_name item,
                                             item_row_index = row_index item\<rparr>)
                                   (items validated),
                             ok_total_found = total_found validated,
                             ok_confidence = confidence validated,
                             emailed = sent,
                             email_debug = emailDebug,
                             ok_provider = provider validated,
                             ok_request_id = requestId,
                             ok_client_request_id = client_request_id validated,
                             ok_x_request_id = x_request_id validated\<rparr>,
                          am, evs @ [SendEmail])))))"

text \<open>Steps 6 to 8: the \<open>image\<close> field must be a file, within the size limit, of an allowed type.\<close>

definition check_file ::
  "'a server_env_scheme \<Rightarrow> (jsstring \<Rightarrow> jsstring) \<Rightarrow> jsstring option \<Rightarrow> jsstring \<Rightarrow> jsstring
   \<Rightarrow> EnvConfig \<Rightarrow> jsstring list \<Rightarrow> form_data \<Rightarrow> http_response \<times> jsstring option \<times> event list"
  where
  "check_file env createExtractionPrompt availableModel requestId uuid config productCodes form =
     (case form_image form of
        Some (FormFile file) \<Rightarrow>
          (if file_size file > MAX_PAYLOAD_SIZE then
             (error_json 413 (js ''payload_too_large'') requestId, availableModel, [])
           else if file_type file \<notin> set allowedTypes then
             (error_json 400 (js ''invalid_file_type'') requestId, availableModel, [])
           else
             process_image env createExtractionPrompt availableModel requestId uuid config
               productCodes file)
      | _ \<Rightarrow> (error_json 400 (js ''missing_file'') requestId, availableModel, []))"

text \<open>
  The handler. \<open>requestId\<close> is the value of its own \<open>uuidv4()\<close> call, \<open>uuid\<close> that of
  the call made during extraction. The result is the answer, the module variable
  \<open>availableModel\<close> afterwards, and the calls made to the provider and the mail service.
\<close>

definition POST ::
  "'a server_env_scheme \<Rightarrow> (jsstring \<Rightarrow> jsstring) \<Rightarrow> jsstring option \<Rightarrow> jsstring \<Rightarrow> jsstring
   \<Rightarrow> http_request \<Rightarrow> http_response \<times> jsstring option \<times> event list" where
  "POST env createExtractionPrompt availableModel requestId uuid request =
     (case loadEnvConfig env of
        Inl e \<Rightarrow> (unexpected_error requestId e, availableModel, [])
      | Inr config \<Rightarrow>
          (if \<not> includes_str (or_empty (content_type request)) (js ''multipart/form-data'') then
             (error_json 400 (js ''invalid_content_type'') requestId, availableModel, [])
           else
             (case formData request of
                Inl e \<Rightarrow> (error_json 400 (js ''invalid_form_data'') requestId, availableModel, [])
              | Inr form \<Rightarrow>
                  (case form_productCode form of
                     Some (FormString targetCodeRaw) \<Rightarrow>
                       (if targetCodeRaw = [] then
                          (error_json 400 (js ''missing_product_code'') requestId,
                           availableModel, [])
                        else
                          (let productCodes = productCodes_of targetCodeRaw;
                               invalidCodes =
                                 filter (\<lambda>code. \<not> validateProductCode code
                                                    (PRODUCT_CODE_REGEX config)) productCodes
                           in if length productCodes = 0 then
                                (error_json 400 (js ''invalid_product_code'') requestId,
                                 availableModel, [])
                              else if length invalidCodes > 0 then
                                (error_json 400 (js ''invalid_product_code'') requestId,
                                 availableModel, [])
                              else
                                check_file env createExtractionPrompt availableModel requestId
                                  uuid config productCodes form))
                   | _ \<Rightarrow>
                       (error_json 400 (js ''missing_product_code'') requestId,
                        availableModel, [])))))"

section \<open>Sample inputs\<close>

text \<open>
  Concrete configurations, results and provider behaviours, used to run the functions.
  \<open>five_digits\<close> is the documented default pattern \<open>/^\d{5}$/\<close>; the documented default
  minimum confidence is the double that \<open>0.6\<close> denotes.
\<close>

definition five_digits :: "jsstring \<Rightarrow> bool" where
  "five_digits s = (length s = 5 \<and> list_all isDigit s)"

definition double_0_6 :: rat where
  "double_0_6 = 5404319552844595 / 9007199254740992"

definition sample_config :: EnvConfig where
  "sample_config =
     \<lparr>MOCK_LLM = False,
      OPENAI_API_KEY = Some (js ''sk-test''),
      OPENAI_MODEL = None,
      MIN_CONFIDENCE = Fin double_0_6,
      PRODUCT_CODE_REGEX = five_digits,
      SENDER_EMAIL = js ''from@example.com'',
      RECIPIENT_EMAIL = js ''to@example.com''\<rparr>"

definition mock_config :: EnvConfig where
  "mock_config = sample_config\<lparr>MOCK_LLM := True\<rparr>"

definition sample_item :: "jsstring \<Rightarrow> ExtractionItem" where
  "sample_item brn =
     \<lparr>product_code = js ''12345'', business_reg_no = brn, company_name = Some (js ''ACME''),
      row_index = Some (Fin 1), raw_text = None\<rparr>"

definition sample_result :: "ExtractionItem list \<Rightarrow> rat \<Rightarrow> ExtractionResult" where
  "sample_result its c =
     \<lparr>items = its, total_found = JNum (Fin (of_nat (length its))), confidence = Fin c,
      provider = openai, request_id = js ''id'', client_request_id = Some (js ''id''),
      x_request_id = None\<rparr>"

text \<open>A provider whose \<open>n\<close>-th call fails with \<open>errs n\<close>, and whose catalogue has the primary model.\<close>

definition failing_env :: "(nat \<Rightarrow> thrown) \<Rightarrow> openai_env" where
  "failing_env errs =
     \<lparr>models_list = Inr [PRIMARY_MODEL],
      responses_create = (\<lambda>n req. Inl (errs n)),
      JSON_parse = (\<lambda>s. Inl (Error (js ''SyntaxError'') (js ''Unexpected end of JSON input'')))\<rparr>"

definition bad_request :: thrown where
  "bad_request = APIError (Some 400) (js ''400 Invalid image data'')"

definition unavailable :: thrown where
  "unavailable = APIError (Some 503) (js ''503 Service Unavailable'')"

definition model_missing :: thrown where
  "model_missing = APIError (Some 404) (js ''404 Not Found'')"

definition sample_request :: "jsstring \<Rightarrow> api_request" where
  "sample_request m =
     \<lparr>req_model = m,
      req_input_text = js ''prompt'',
      req_image_url = js ''data:image/png;base64,AAAA'',
      req_client_request_id = js ''id''\<rparr>"

text \<open>
  A \<open>JSON.parse\<close> that knows the texts of a table and throws a SyntaxError on any
  other; \<open>dq\<close> puts a string between double quotes.
\<close>

definition parse_table :: "(jsstring \<times> json) list \<Rightarrow> jsstring \<Rightarrow> thrown + json" where
  "parse_table tbl s =
     (case map_of tbl s of
        Some v \<Rightarrow> Inr v
      | None \<Rightarrow> Inl (Error (js ''SyntaxError'') (js ''Unexpected end of JSON input'')))"

definition dq :: "jsstring \<Rightarrow> jsstring" where
  "dq s = [0x22] @ s @ [0x22]"

text \<open>
  The answer
  \<^verbatim>\<open>{"items": [{"product_code": "12345", "business_reg_no": "123-45-67890"}], "total_found": "one", "confidence": 1}\<close>
  and its parsed value.
\<close>

definition bad_total_text :: jsstring where
  "bad_total_text =
     js ''{'' @ dq (js ''items'') @ js '': [{'' @ dq (js ''product_code'') @ js '': ''
     @ dq (js ''12345'') @ js '', '' @ dq (js ''business_reg_no'') @ js '': ''
     @ dq (js ''123-45-67890'') @ js ''}], '' @ dq (js ''total_found'') @ js '': ''
     @ dq (js ''one'') @ js '', '' @ dq (js ''confidence'') @ js '': 1}''"

definition bad_total_json :: json where
  "bad_total_json =
     JObj [(js ''items'',
            JArr [JObj [(js ''product_code'', JStr (js ''12345'')),
                        (js ''business_reg_no'', JStr (js ''123-45-67890''))]]),
           (js ''total_found'', JStr (js ''one'')),
           (js ''confidence'', JNum (Fin 1))]"

text \<open>
  The answer
  \<^verbatim>\<open>{"items": [{"product_code": "12345", "business_reg_no": ""}], "confidence": 1}\<close>
  (a row without registration number and without company name) and its parsed value.
\<close>

definition blank_row_text :: jsstring where
  "blank_row_text =
     js ''{'' @ dq (js ''items'') @ js '': [{'' @ dq (js ''product_code'') @ js '': ''
     @ dq (js ''12345'') @ js '', '' @ dq (js ''business_reg_no'') @ js '': ''
     @ dq [] @ js ''}], '' @ dq (js ''confidence'') @ js '': 1}''"

definition blank_row_json :: json where
  "blank_row_json =
     JObj [(js ''items'',
            JArr [JObj [(js ''product_code'', JStr (js ''12345'')),
                        (js ''business_reg_no'', JStr [])]]),
           (js ''confidence'', JNum (Fin 1))]"

text \<open>A provider that answers every call with one message holding the given text.\<close>

definition answering_env :: "jsstring \<Rightarrow> json \<Rightarrow> openai_env" where
  "answering_env answer parsed =
     \<lparr>models_list = Inr [PRIMARY_MODEL],
      responses_create =
        (\<lambda>n req. Inr \<lparr>response_output =
                          Some [\<lparr>item_type = js ''message'',
                                 item_content = Some [\<lparr>part_text = Some answer\<rparr>]\<rparr>]\<rparr>),
      JSON_parse = parse_table [(answer, parsed)]\<rparr>"

text \<open>A server whose configuration loads, whose export and mail succeed.\<close>

definition sample_server_env :: server_env where
  "sample_server_env =
     \<lparr>models_list = Inr [PRIMARY_MODEL],
      responses_create = (\<lambda>n req. Inl unavailable),
      JSON_parse = parse_table [],
      loadEnvConfig = Inr sample_config,
      generateExcel = (\<lambda>rows. Inr (js ''UEsDBA=='')),
      generateExcelFilename = js ''result.xlsx'',
      sendResultEmail =
        (\<lambda>code its excel name config.
           Inr \<lparr>success = True, messageId = Some (js ''m1''), email_error = None\<rparr>),
      now_ISO = js ''2025-01-01T00:00:00.000Z''\<rparr>"

definition sample_http_request :: "jsstring \<Rightarrow> http_request" where
  "sample_http_request codes =
     \<lparr>content_type = Some (js ''multipart/form-data; boundary=x''),
      formData = Inr \<lparr>form_productCode = Some (FormString codes),
                      form_image =
                        Some (FormFile \<lparr>file_name = js ''a.png'', file_size = 4,
                                         file_type = js ''image/png'',
                                         file_base64 = js ''AAAA''\<rparr>)\<rparr>\<rparr>"

text \<open>What \<open>extractBusinessRegNo\<close> makes of the blank row.\<close>

definition blank_row_result :: ExtractionResult where
  "blank_row_result =
     \<lparr>items = [\<lparr>product_code = js ''12345'', business_reg_no = [], company_name = Some [],
                 row_index = None, raw_text = None\<rparr>],
      total_found = JNum (Fin 1),
      confidence = Fin 1,
      provider = openai,
      request_id = js ''id'',
      client_request_id = Some (js ''id''),
      x_request_id = None\<rparr>"

text \<open>The response the provider call yields for the blank row.\<close>

definition blank_row_response :: OpenAIResponse where
  "blank_row_response =
     \<lparr>result = \<lparr>result_items =
                  [\<lparr>product_code = js ''12345'', business_reg_no = [],
                    company_name = None, row_index = None, raw_text = None\<rparr>],
                result_total_found = JNum (Fin 1),
                result_confidence = Fin 1,
                result_raw_text = None\<rparr>,
      metadata = \<lparr>meta_client_request_id = js ''id'', meta_x_request_id = None,
                  model_used = PRIMARY_MODEL\<rparr>\<rparr>"

text \<open>
  The pattern \<open>\d{3}-\d{2}-\d{5}\<close>, matched against the whole string (which implies
  that the unanchored pattern matches too).
\<close>

definition matches_3_2_5 :: "jsstring \<Rightarrow> bool" where
  "matches_3_2_5 s =
     (length s = 12 \<and> list_all isDigit (take 3 s) \<and> s ! 3 = hyphen \<and>
      list_all isDigit (take 2 (drop 4 s)) \<and> s ! 6 = hyphen \<and>
      list_all isDigit (drop 7 s))"

section \<open>Properties of the normalisation\<close>

lemma hyphen_not_digit: "\<not> isDigit hyphen"
  by (simp add: isDigit_def hyphen_def)

lemma filter_digits_id: "\<forall>c\<in>set ds. isDigit c \<Longrightarrow> filter isDigit ds = ds"
  by (induction ds) auto

lemma take_3_2_5: "take 3 ds @ take 2 (drop 3 ds) @ drop 5 ds = ds"
proof -
  have "take 2 (drop 3 ds) @ drop 2 (drop 3 ds) = drop 3 ds"
    by (rule append_take_drop_id)
  then have "take 2 (drop 3 ds) @ drop 5 ds = drop 3 ds"
    by simp
  then show ?thesis
    by simp
qed

lemma digits_of_layout:
  assumes "\<forall>c\<in>set ds. isDigit c"
  shows "filter isDigit (take 3 ds @ [hyphen] @ take 2 (drop 3 ds) @ [hyphen] @ drop 5 ds) = ds"
proof -
  have a: "filter isDigit (take 3 ds) = take 3 ds"
    using assms by (intro filter_digits_id) (auto dest: in_set_takeD)
  have b: "filter isDigit (take 2 (drop 3 ds)) = take 2 (drop 3 ds)"
    using assms by (intro filter_digits_id) (auto dest: in_set_takeD in_set_dropD)
  have c: "filter isDigit (drop 5 ds) = drop 5 ds"
    using assms by (intro filter_digits_id) (auto dest: in_set_dropD)
  show ?thesis
    using take_3_2_5 [of ds] by (simp add: a b c hyphen_not_digit)
qed

lemma layout_matches:
  assumes len: "length ds = 10" and dig: "\<forall>c\<in>set ds. isDigit c"
  shows "matches_3_2_5 (take 3 ds @ [hyphen] @ take 2 (drop 3 ds) @ [hyphen] @ drop 5 ds)"
proof -
  have a: "list_all isDigit (take 3 ds)"
    using dig by (auto simp: list_all_iff dest: in_set_takeD)
  have b: "list_all isDigit (take 2 (drop 3 ds))"
    using dig by (auto simp: list_all_iff dest: in_set_takeD in_set_dropD)
  have c: "list_all isDigit (drop 5 ds)"
    using dig by (auto simp: list_all_iff dest: in_set_dropD)
  show ?thesis
    using len a b c by (simp add: matches_3_2_5_def nth_append)
qed

text \<open>
  C5. For every string of exactly ten digits, \<open>normalizeBusinessRegNo\<close> is idempotent
  and its output has the form \<open>\d{3}-\d{2}-\d{5}\<close>.
\<close>

theorem normalizeBusinessRegNo_ten_digits:
  assumes "length x = 10" and "\<forall>c\<in>set x. isDigit c"
  shows "normalizeBusinessRegNo (normalizeBusinessRegNo x) = normalizeBusinessRegNo x
         \<and> matches_3_2_5 (normalizeBusinessRegNo x)"
proof -
  let ?out = "take 3 x @ [hyphen] @ take 2 (drop 3 x) @ [hyphen] @ drop 5 x"
  have fx: "filter isDigit x = x"
    using assms(2) by (rule filter_digits_id)
  have n1: "normalizeBusinessRegNo x = ?out"
    using assms(1) by (simp add: normalizeBusinessRegNo_def fx)
  have fo: "filter isDigit ?out = x"
    using assms(2) by (rule digits_of_layout)
  have n2: "normalizeBusinessRegNo ?out = ?out"
    unfolding normalizeBusinessRegNo_def fo using assms(1) by simp
  show ?thesis
    using n1 n2 layout_matches [OF assms] by simp
qed

theorem normalizeBusinessRegNo_ten_digits_witness:
  "normalizeBusinessRegNo (normalizeBusinessRegNo (js ''1234567890'')) = js ''123-45-67890''
   \<and> normalizeBusinessRegNo (js ''1234567890'') = js ''123-45-67890''
   \<and> matches_3_2_5 (js ''123-45-67890'')"
proof -
  have v: "normalizeBusinessRegNo (js ''1234567890'') = js ''123-45-67890''"
    by (simp add: normalizeBusinessRegNo_def js_def isDigit_def hyphen_def)
  have "length (js ''1234567890'') = 10"
    by (simp add: js_def)
  moreover have "\<forall>c\<in>set (js ''1234567890''). isDigit c"
    by (simp add: js_def isDigit_def)
  ultimately show ?thesis
    using normalizeBusinessRegNo_ten_digits [of "js ''1234567890''"] v by simp
qed

section \<open>Properties of \<open>normalizeBusinessRegNo\<close> on other lengths\<close>

lemma trim_decomposition:
  "\<exists>pre suf. s = pre @ trim s @ suf \<and> list_all isWhiteSpace pre \<and> list_all isWhiteSpace suf"
proof -
  let ?t = "dropWhile isWhiteSpace s"
  have a: "s = takeWhile isWhiteSpace s @ ?t"
    by simp
  have "rev (takeWhile isWhiteSpace (rev ?t) @ dropWhile isWhiteSpace (rev ?t)) = ?t"
    by (simp only: takeWhile_dropWhile_id rev_rev_ident)
  then have b: "?t = trim s @ rev (takeWhile isWhiteSpace (rev ?t))"
    by (simp only: rev_append trim_def)
  have c: "list_all isWhiteSpace (takeWhile isWhiteSpace s)"
    by (auto simp: list_all_iff dest: set_takeWhileD)
  have d: "list_all isWhiteSpace (rev (takeWhile isWhiteSpace (rev ?t)))"
    by (auto simp: list_all_iff dest: set_takeWhileD)
  from a b have "s = takeWhile isWhiteSpace s @ trim s @ rev (takeWhile isWhiteSpace (rev ?t))"
    by simp
  with c d show ?thesis
    by blast
qed

text \<open>
  C6, as stated: a string whose digits do not number ten is returned unmodified. The
  code returns \<open>businessRegNo.trim()\<close>, so a leading blank is lost.
\<close>

theorem normalizeBusinessRegNo_other_lengths_counterexample:
  "length (filter isDigit (js '' 123'')) \<noteq> 10 \<and> normalizeBusinessRegNo (js '' 123'') \<noteq> js '' 123''"
  by (simp add: normalizeBusinessRegNo_def js_def isDigit_def trim_def isWhiteSpace_def)

text \<open>
  C6, amended. For every string whose digits do not number exactly ten,
  \<open>normalizeBusinessRegNo\<close> returns the string trimmed: only white space at its two
  ends is removed, everything between stays as it is.
\<close>

theorem normalizeBusinessRegNo_other_lengths:
  assumes "length (filter isDigit s) \<noteq> 10"
  shows "normalizeBusinessRegNo s = trim s
         \<and> (\<exists>pre suf. s = pre @ normalizeBusinessRegNo s @ suf
                \<and> list_all isWhiteSpace pre \<and> list_all isWhiteSpace suf)"
proof -
  have "normalizeBusinessRegNo s = trim s"
    using assms by (simp add: normalizeBusinessRegNo_def)
  then show ?thesis
    using trim_decomposition [of s] by simp
qed

theorem normalizeBusinessRegNo_other_lengths_witness:
  "length (filter isDigit (js '' 12-3 '')) \<noteq> 10
   \<and> normalizeBusinessRegNo (js '' 12-3 '') = js ''12-3''"
proof -
  have h: "length (filter isDigit (js '' 12-3 '')) \<noteq> 10"
    by (simp add: js_def isDigit_def)
  have t: "trim (js '' 12-3 '') = js ''12-3''"
    by (simp add: js_def trim_def isWhiteSpace_def)
  from normalizeBusinessRegNo_other_lengths [OF h] t h show ?thesis
    by simp
qed

section \<open>Properties of \<open>validateExtractionResult\<close>\<close>

text \<open>
  C2. \<open>validateExtractionResult\<close> checks emptiness before confidence: a result with no
  items is rejected with \<open>extraction_failed\<close> whatever its confidence, and a result with
  items is rejected with \<open>low_confidence\<close> exactly when its confidence is strictly below
  the configured minimum (and is accepted otherwise).
\<close>

theorem validateExtractionResult_order:
  "(items r = [] \<longrightarrow>
      (\<exists>e. fst (validateExtractionResult r cfg) = Some e \<and> error_code e = js ''extraction_failed''))
   \<and> (items r \<noteq> [] \<longrightarrow>
        ((\<exists>e. fst (validateExtractionResult r cfg) = Some e \<and> error_code e = js ''low_confidence'')
         \<longleftrightarrow> js_less (confidence r) (MIN_CONFIDENCE cfg))
        \<and> (\<not> js_less (confidence r) (MIN_CONFIDENCE cfg)
             \<longrightarrow> fst (validateExtractionResult r cfg) = None))"
  by (simp add: validateExtractionResult_def)

theorem validateExtractionResult_order_witness:
  "items (sample_result [] 0) = []
   \<and> js_less (confidence (sample_result [] 0)) (MIN_CONFIDENCE sample_config)
   \<and> (\<exists>e. fst (validateExtractionResult (sample_result [] 0) sample_config) = Some e
          \<and> error_code e = js ''extraction_failed'')
   \<and> items (sample_result [sample_item (js ''123-45-67890'')] (1 / 2)) \<noteq> []
   \<and> js_less (confidence (sample_result [sample_item (js ''123-45-67890'')] (1 / 2)))
        (MIN_CONFIDENCE sample_config)
   \<and> (\<exists>e. fst (validateExtractionResult (sample_result [sample_item (js ''123-45-67890'')] (1 / 2))
                 sample_config) = Some e
          \<and> error_code e = js ''low_confidence'')"
proof -
  have a: "items (sample_result [] 0) = []"
    by (simp add: sample_result_def)
  have b: "js_less (confidence (sample_result [] 0)) (MIN_CONFIDENCE sample_config)"
    by (simp add: sample_result_def sample_config_def double_0_6_def)
  have c: "items (sample_result [sample_item (js ''123-45-67890'')] (1 / 2)) \<noteq> []"
    by (simp add: sample_result_def)
  have d: "js_less (confidence (sample_result [sample_item (js ''123-45-67890'')] (1 / 2)))
             (MIN_CONFIDENCE sample_config)"
    by (simp add: sample_result_def sample_config_def double_0_6_def)
  show ?thesis
    using validateExtractionResult_order [of "sample_result [] 0" sample_config]
      validateExtractionResult_order
        [of "sample_result [sample_item (js ''123-45-67890'')] (1 / 2)" sample_config]
      a b c d
    by simp
qed

text \<open>
  C9. \<open>validateExtractionResult\<close> is atomic on failure: when it throws (no items, or a
  confidence below the minimum) the result object, and with it every field of every
  item, is as it was.
\<close>

theorem validateExtractionResult_atomic:
  assumes "items r = [] \<or> js_less (confidence r) (MIN_CONFIDENCE cfg)"
  shows "fst (validateExtractionResult r cfg) \<noteq> None \<and> snd (validateExtractionResult r cfg) = r"
  using assms by (auto simp: validateExtractionResult_def)

theorem validateExtractionResult_atomic_witness:
  "js_less (confidence (sample_result [sample_item (js ''1234567890'')] (1 / 2)))
     (MIN_CONFIDENCE sample_config)
   \<and> fst (validateExtractionResult (sample_result [sample_item (js ''1234567890'')] (1 / 2))
           sample_config) \<noteq> None
   \<and> map business_reg_no
       (items (snd (validateExtractionResult
                      (sample_result [sample_item (js ''1234567890'')] (1 / 2)) sample_config)))
     = [js ''1234567890'']"
proof -
  have d: "js_less (confidence (sample_result [sample_item (js ''1234567890'')] (1 / 2)))
             (MIN_CONFIDENCE sample_config)"
    by (simp add: sample_result_def sample_config_def double_0_6_def)
  then have "items (sample_result [sample_item (js ''1234567890'')] (1 / 2)) = []
             \<or> js_less (confidence (sample_result [sample_item (js ''1234567890'')] (1 / 2)))
                  (MIN_CONFIDENCE sample_config)"
    by simp
  from validateExtractionResult_atomic [OF this] d show ?thesis
    by (simp add: sample_result_def sample_item_def)
qed

section \<open>Properties of the retry loop\<close>

lemma try_body_failing: "try_body (failing_env errs) n r = Inl (errs n)"
  by (simp add: try_body_def failing_env_def)

lemma model_names_distinct:
  "PRIMARY_MODEL \<noteq> LEGACY_FALLBACK" "FALLBACK_MODEL \<noteq> LEGACY_FALLBACK"
  "PRIMARY_MODEL \<noteq> FALLBACK_MODEL"
  by (simp_all add: PRIMARY_MODEL_def FALLBACK_MODEL_def LEGACY_FALLBACK_def js_def)

lemma model_missing_class: "isModelNotFoundError model_missing" "\<not> isRetryableError model_missing"
  "as_Error model_missing = model_missing"
  by (simp_all add: model_missing_def)

lemma unavailable_class: "\<not> isModelNotFoundError unavailable" "isRetryableError unavailable"
  "as_Error unavailable = unavailable"
  by (simp_all add: unavailable_def js_def)

lemma bad_request_class: "\<not> isModelNotFoundError bad_request \<and> \<not> isRetryableError bad_request"
  by (simp add: bad_request_def js_def)

text \<open>
  C1, at a failing input. The provider answers every call with HTTP 400, an error that
  is neither model-not-found nor retryable. The claim is that no further attempt is
  made; the loop makes all three calls, without delay, before it throws the error.
\<close>

theorem extractWithOpenAI_retries_bad_request:
  "\<not> isModelNotFoundError bad_request \<and> \<not> isRetryableError bad_request
   \<and> extractWithOpenAI (failing_env (\<lambda>n. bad_request)) (Some PRIMARY_MODEL) (js ''id'')
        (js ''AAAA'') (js ''image/png'') sample_config (js ''prompt'')
      = (Inl bad_request, Some PRIMARY_MODEL,
         [ResponsesCreate (sample_request PRIMARY_MODEL),
          ResponsesCreate (sample_request PRIMARY_MODEL),
          ResponsesCreate (sample_request PRIMARY_MODEL)])"
proof -
  have t: "\<And>n r. try_body (failing_env (\<lambda>n. bad_request)) n r = Inl bad_request"
    by (simp add: try_body_def failing_env_def)
  have k: "truthy (OPENAI_API_KEY sample_config)"
    by (simp add: truthy_def sample_config_def js_def)
  have m: "getAvailableModel (failing_env (\<lambda>n. bad_request)) (Some PRIMARY_MODEL) (OPENAI_MODEL sample_config)
           = (PRIMARY_MODEL, Some PRIMARY_MODEL, [])"
    by (simp add: getAvailableModel_def truthy_def PRIMARY_MODEL_def js_def)
  have r: "\<lparr>req_model = PRIMARY_MODEL, req_input_text = js ''prompt'',
            req_image_url = js ''data:'' @ js ''image/png'' @ js '';base64,'' @ js ''AAAA'',
            req_client_request_id = js ''id''\<rparr> = sample_request PRIMARY_MODEL"
    by (simp add: sample_request_def js_def)
  have l: "extract_loop (failing_env (\<lambda>n. bad_request)) (sample_request PRIMARY_MODEL) 0 PRIMARY_MODEL None (Some PRIMARY_MODEL)
      = (Inl bad_request, Some PRIMARY_MODEL,
         [ResponsesCreate (sample_request PRIMARY_MODEL),
          ResponsesCreate (sample_request PRIMARY_MODEL),
          ResponsesCreate (sample_request PRIMARY_MODEL)])"
  proof -
    have a: "as_Error bad_request = bad_request"
      by (simp add: bad_request_def)
    show ?thesis
      using bad_request_class
      by (simp add: extract_loop.simps t a MAX_RETRIES_def after_events_def sample_request_def)
  qed
  show ?thesis
    using bad_request_class
    by (simp add: extractWithOpenAI_def k m r l after_events_def)
qed

lemma extract_loop_first_event:
  assumes "attempt < MAX_RETRIES"
  shows "\<exists>r am evs. extract_loop env req attempt modelToUse lastError availableModel
           = (r, am, ResponsesCreate (req\<lparr>req_model := modelToUse\<rparr>) # evs)"
proof (cases "try_body env attempt (req\<lparr>req_model := modelToUse\<rparr>)")
  case (Inr response)
  then show ?thesis
    using assms by (subst extract_loop.simps) simp
next
  case (Inl error)
  have shape: "\<And>e es out. \<exists>r am evs. after_events (e # es) out = (r, am, e # evs)"
    by (simp add: after_events_def split: prod.splits)
  show ?thesis
    using assms Inl by (subst extract_loop.simps) (simp add: shape Let_def)
qed

text \<open>
  C4, as stated: a model-not-found failure on a model other than the last makes the
  caller retry with the next model rather than throw. On the third attempt it does not:
  after two 503 answers and a 404 for the primary model, the downgraded model is stored
  in \<open>availableModel\<close>, no call is made with it, and the 404 error is thrown.
\<close>

theorem extractWithOpenAI_fallback_on_last_attempt:
  "isModelNotFoundError model_missing
   \<and> PRIMARY_MODEL \<noteq> LEGACY_FALLBACK
   \<and> extractWithOpenAI (failing_env (\<lambda>n. if n < 2 then unavailable else model_missing))
        (Some PRIMARY_MODEL) (js ''id'') (js ''AAAA'') (js ''image/png'') sample_config
        (js ''prompt'')
      = (Inl model_missing, Some FALLBACK_MODEL,
         [ResponsesCreate (sample_request PRIMARY_MODEL), Sleep 1000,
          ResponsesCreate (sample_request PRIMARY_MODEL), Sleep 2000,
          ResponsesCreate (sample_request PRIMARY_MODEL)])"
proof -
  let ?env = "failing_env (\<lambda>n. if n < 2 then unavailable else model_missing)"
  have k: "truthy (OPENAI_API_KEY sample_config)"
    by (simp add: truthy_def sample_config_def js_def)
  have m: "getAvailableModel ?env (Some PRIMARY_MODEL) (OPENAI_MODEL sample_config)
           = (PRIMARY_MODEL, Some PRIMARY_MODEL, [])"
    by (simp add: getAvailableModel_def truthy_def PRIMARY_MODEL_def js_def)
  have r: "\<lparr>req_model = PRIMARY_MODEL, req_input_text = js ''prompt'',
            req_image_url = js ''data:'' @ js ''image/png'' @ js '';base64,'' @ js ''AAAA'',
            req_client_request_id = js ''id''\<rparr> = sample_request PRIMARY_MODEL"
    by (simp add: sample_request_def js_def)
  have c: "\<And>m. (sample_request PRIMARY_MODEL)\<lparr>req_model := m\<rparr> = sample_request m"
    by (simp add: sample_request_def)
  have l: "extract_loop ?env (sample_request PRIMARY_MODEL) 0 PRIMARY_MODEL None (Some PRIMARY_MODEL)
      = (Inl model_missing, Some FALLBACK_MODEL,
         [ResponsesCreate (sample_request PRIMARY_MODEL), Sleep 1000,
          ResponsesCreate (sample_request PRIMARY_MODEL), Sleep 2000,
          ResponsesCreate (sample_request PRIMARY_MODEL)])"
    by (simp add: extract_loop.simps try_body_failing model_missing_class unavailable_class
          model_names_distinct c MAX_RETRIES_def INITIAL_DELAY_MS_def after_events_def)
  show ?thesis
    by (simp add: extractWithOpenAI_def k m r l after_events_def model_missing_class
          model_names_distinct)
qed

text \<open>
  C4, amended. Whenever an attempt fails with a model-not-found error and the current
  model is not the legacy model, the caller switches to the downgraded model (the
  secondary model after the primary, the legacy model after any other). If the attempt
  is not the last of the three, the next event after the failed call is a call with
  the downgraded model, with no backoff delay in between. If it is the last, the
  downgraded model is only stored in \<open>availableModel\<close>: no further call is made and
  the error of that attempt is thrown.
\<close>

theorem extract_loop_model_fallback:
  assumes "attempt < MAX_RETRIES"
    and "try_body env attempt (req\<lparr>req_model := modelToUse\<rparr>) = Inl error"
    and "isModelNotFoundError error"
    and "modelToUse \<noteq> LEGACY_FALLBACK"
  shows "(attempt + 1 < MAX_RETRIES \<longrightarrow>
            (\<exists>r am evs.
               extract_loop env req attempt modelToUse lastError availableModel
               = (r, am,
                  ResponsesCreate (req\<lparr>req_model := modelToUse\<rparr>)
                  # ResponsesCreate
                      (req\<lparr>req_model := (if modelToUse = PRIMARY_MODEL then FALLBACK_MODEL
                                          else LEGACY_FALLBACK)\<rparr>)
                  # evs)))
         \<and> (attempt + 1 = MAX_RETRIES \<longrightarrow>
               extract_loop env req attempt modelToUse lastError availableModel
               = (Inl error,
                  Some (if modelToUse = PRIMARY_MODEL then FALLBACK_MODEL else LEGACY_FALLBACK),
                  [ResponsesCreate (req\<lparr>req_model := modelToUse\<rparr>)]))"
proof -
  let ?next = "if modelToUse = PRIMARY_MODEL then FALLBACK_MODEL else LEGACY_FALLBACK"
  have step: "extract_loop env req attempt modelToUse lastError availableModel
        = after_events [ResponsesCreate (req\<lparr>req_model := modelToUse\<rparr>)]
            (extract_loop env req (attempt + 1) ?next (Some (as_Error error)) (Some ?next))"
    using assms by (subst extract_loop.simps) (simp add: Let_def)
  have same: "as_Error error = error"
    using assms(3) by (cases error) simp_all
  have early: "\<exists>r am evs.
               extract_loop env req attempt modelToUse lastError availableModel
               = (r, am,
                  ResponsesCreate (req\<lparr>req_model := modelToUse\<rparr>)
                  # ResponsesCreate (req\<lparr>req_model := ?next\<rparr>) # evs)"
    if more: "attempt + 1 < MAX_RETRIES"
  proof -
    obtain r am evs where
      "extract_loop env req (attempt + 1) ?next (Some (as_Error error)) (Some ?next)
         = (r, am, ResponsesCreate (req\<lparr>req_model := ?next\<rparr>) # evs)"
      using extract_loop_first_event [OF more] by blast
    then show ?thesis
      unfolding step by (simp add: after_events_def)
  qed
  have final: "extract_loop env req attempt modelToUse lastError availableModel
               = (Inl error, Some ?next, [ResponsesCreate (req\<lparr>req_model := modelToUse\<rparr>)])"
    if last: "attempt + 1 = MAX_RETRIES"
  proof -
    have "extract_loop env req (attempt + 1) ?next (Some (as_Error error)) (Some ?next)
            = (Inl error, Some ?next, [])"
      using last by (subst extract_loop.simps) (simp add: same)
    then show ?thesis
      unfolding step by (simp add: after_events_def)
  qed
  from early final show ?thesis
    by blast
qed

theorem extract_loop_model_fallback_witness:
  "0 < MAX_RETRIES \<and> 0 + 1 < MAX_RETRIES \<and> 2 < MAX_RETRIES \<and> 2 + 1 = MAX_RETRIES
   \<and> try_body (failing_env (\<lambda>n. model_missing)) 0 (sample_request PRIMARY_MODEL) = Inl model_missing
   \<and> try_body (failing_env (\<lambda>n. model_missing)) 2 (sample_request PRIMARY_MODEL) = Inl model_missing
   \<and> isModelNotFoundError model_missing
   \<and> PRIMARY_MODEL \<noteq> LEGACY_FALLBACK
   \<and> (\<exists>r am evs.
         extract_loop (failing_env (\<lambda>n. model_missing)) (sample_request PRIMARY_MODEL) 0
           PRIMARY_MODEL None (Some PRIMARY_MODEL)
         = (r, am, ResponsesCreate (sample_request PRIMARY_MODEL)
                   # ResponsesCreate (sample_request FALLBACK_MODEL) # evs))
   \<and> extract_loop (failing_env (\<lambda>n. model_missing)) (sample_request PRIMARY_MODEL) 2
       PRIMARY_MODEL (Some unavailable) (Some PRIMARY_MODEL)
     = (Inl model_missing, Some FALLBACK_MODEL, [ResponsesCreate (sample_request PRIMARY_MODEL)])"
proof -
  have a: "0 < MAX_RETRIES" "0 + 1 < MAX_RETRIES" "2 < MAX_RETRIES" "2 + 1 = MAX_RETRIES"
    by (simp_all add: MAX_RETRIES_def)
  have b: "\<And>n. try_body (failing_env (\<lambda>n. model_missing)) n
             ((sample_request PRIMARY_MODEL)\<lparr>req_model := PRIMARY_MODEL\<rparr>) = Inl model_missing"
    by (simp add: try_body_failing)
  have c: "\<And>m. (sample_request PRIMARY_MODEL)\<lparr>req_model := m\<rparr> = sample_request m"
    by (simp add: sample_request_def)
  show ?thesis
    using extract_loop_model_fallback [OF a(1) b model_missing_class(1) model_names_distinct(1),
            of None "Some PRIMARY_MODEL"]
      extract_loop_model_fallback [OF a(3) b model_missing_class(1) model_names_distinct(1),
            of "Some unavailable" "Some PRIMARY_MODEL"]
      a model_missing_class(1) model_names_distinct(1)
    by (simp add: c try_body_failing)
qed

section \<open>Properties of the mock mode\<close>

lemma split_str_nonempty: "split_str sep s \<noteq> []"
  by (induction s) (auto split: list.splits)

text \<open>
  C8. With mock mode enabled and target code \<open>12345\<close>, \<open>extractBusinessRegNo\<close> returns,
  whatever the image payload and without any call to the outside, a result with exactly
  two items, confidence 0.95, provider \<open>mock\<close> and the registration numbers
  \<open>123-45-67890\<close> and \<open>987-65-43210\<close>, in this order.
\<close>

theorem extractBusinessRegNo_mock:
  assumes "MOCK_LLM config"
  shows "\<exists>r. extractBusinessRegNo env createExtractionPrompt availableModel uuid imageBase64
                mimeType (js ''12345'') config = (Inr r, availableModel, [])
             \<and> length (items r) = 2
             \<and> confidence r = Fin double_0_95
             \<and> provider r = mock
             \<and> map business_reg_no (items r) = [js ''123-45-67890'', js ''987-65-43210'']
             \<and> map product_code (items r) = [js ''12345'', js ''12345'']"
proof -
  have "trim (hd (split_str comma (js ''12345''))) = js ''12345''"
    by (simp add: js_def comma_def trim_def isWhiteSpace_def)
  then show ?thesis
    using assms by (simp add: extractBusinessRegNo_def getMockResult_def Let_def)
qed

theorem extractBusinessRegNo_mock_witness:
  "MOCK_LLM mock_config
   \<and> (\<exists>r. extractBusinessRegNo (failing_env (\<lambda>n. unavailable)) (\<lambda>code. js ''prompt'') None
             (js ''id'') (js ''AAAA'') (js ''image/png'') (js ''12345'') mock_config
           = (Inr r, None, [])
          \<and> length (items r) = 2
          \<and> confidence r = Fin double_0_95
          \<and> provider r = mock
          \<and> map business_reg_no (items r) = [js ''123-45-67890'', js ''987-65-43210'']
          \<and> map product_code (items r) = [js ''12345'', js ''12345''])"
proof -
  have m: "MOCK_LLM mock_config"
    by (simp add: mock_config_def)
  from extractBusinessRegNo_mock [OF m] m show ?thesis
    by simp
qed

section \<open>Properties of \<open>parseExtractionResult\<close>\<close>

text \<open>
  When the parsed answer has no \<open>total_found\<close>, or has \<open>null\<close> there, the parser
  returns the number of parsed items.
\<close>

lemma parse_parsed_nullish_total_found:
  assumes "parse_parsed parsed = Inr r"
    and "get_prop parsed (js ''total_found'') = None \<or> get_prop parsed (js ''total_found'') = Some JNull"
  shows "result_total_found r = JNum (Fin (of_nat (length (result_items r))))"
  using assms
  by (auto simp: parse_parsed_def split: if_splits option.splits json.splits sum.splits)

text \<open>
  C3, at a failing input. The claim is that a \<open>total_found\<close> that is absent or not a
  number is replaced by the number of parsed items. For the answer whose \<open>total_found\<close>
  is the string \<open>"one"\<close>, with one item, the parser returns that string.
\<close>

theorem parseExtractionResult_string_total_found:
  "get_prop bad_total_json (js ''total_found'') = Some (JStr (js ''one''))
   \<and> parseExtractionResult (parse_table [(bad_total_text, bad_total_json)]) bad_total_text
     = Inr \<lparr>result_items =
              [\<lparr>product_code = js ''12345'', business_reg_no = js ''123-45-67890'',
                company_name = None, row_index = None, raw_text = None\<rparr>],
            result_total_found = JStr (js ''one''),
            result_confidence = Fin 1,
            result_raw_text = None\<rparr>"
proof -
  have t: "trim bad_total_text = bad_total_text"
    by (simp add: bad_total_text_def trim_def dq_def js_def isWhiteSpace_def)
  have f: "fence_match bad_total_text = None"
    by (simp add: bad_total_text_def fence_match_def fence_def dq_def js_def)
  have b: "brace_match bad_total_text = Some bad_total_text"
    by (simp add: bad_total_text_def brace_match_def dq_def js_def)
  have p: "parse_parsed bad_total_json
     = Inr \<lparr>result_items =
              [\<lparr>product_code = js ''12345'', business_reg_no = js ''123-45-67890'',
                company_name = None, row_index = None, raw_text = None\<rparr>],
            result_total_found = JStr (js ''one''),
            result_confidence = Fin 1,
            result_raw_text = None\<rparr>"
    by (simp add: parse_parsed_def bad_total_json_def parse_item_def js_def)
  have g: "get_prop bad_total_json (js ''total_found'') = Some (JStr (js ''one''))"
    by (simp add: bad_total_json_def js_def)
  show ?thesis
    by (simp add: parseExtractionResult_def t f b p g parse_table_def)
qed

section \<open>Properties of the route\<close>

lemma productCodes_of_empty: "productCodes_of [] = []"
  by (simp add: productCodes_of_def normalizeProductCode_def trim_def)

text \<open>
  C7. When the request reaches the product-code check (the configuration loads, the
  content type is multipart, the form parses and holds a string \<open>productCode\<close>) and at
  least one normalised non-empty code fails the configured pattern, the answer is the
  400 \<open>invalid_product_code\<close> error for the whole request, and no call is made to the
  model provider (nor to the mail service).
\<close>

theorem POST_rejects_invalid_code:
  assumes "loadEnvConfig env = Inr config"
    and "includes_str (or_empty (content_type request)) (js ''multipart/form-data'')"
    and "formData request = Inr form"
    and "form_productCode form = Some (FormString targetCodeRaw)"
    and "\<exists>code\<in>set (productCodes_of targetCodeRaw).
           \<not> validateProductCode code (PRODUCT_CODE_REGEX config)"
  shows "POST env createExtractionPrompt availableModel requestId uuid request
         = (error_json 400 (js ''invalid_product_code'') requestId, availableModel, [])"
proof -
  have ne: "targetCodeRaw \<noteq> []"
    using assms(5) productCodes_of_empty by auto
  have inv: "filter (\<lambda>code. \<not> validateProductCode code (PRODUCT_CODE_REGEX config))
               (productCodes_of targetCodeRaw) \<noteq> []"
    using assms(5) by (auto simp: filter_empty_conv)
  show ?thesis
    using assms(1-4) ne inv by (simp add: POST_def Let_def)
qed

theorem POST_rejects_invalid_code_witness:
  "loadEnvConfig sample_server_env = Inr sample_config
   \<and> includes_str (or_empty (content_type (sample_http_request (js ''12345, 1234''))))
        (js ''multipart/form-data'')
   \<and> productCodes_of (js ''12345, 1234'') = [js ''12345'', js ''1234'']
   \<and> validateProductCode (js ''12345'') (PRODUCT_CODE_REGEX sample_config)
   \<and> \<not> validateProductCode (js ''1234'') (PRODUCT_CODE_REGEX sample_config)
   \<and> POST sample_server_env (\<lambda>code. js ''prompt'') None (js ''req'') (js ''id'')
        (sample_http_request (js ''12345, 1234''))
      = (error_json 400 (js ''invalid_product_code'') (js ''req''), None, [])"
proof -
  have a: "loadEnvConfig sample_server_env = Inr sample_config"
    by (simp add: sample_server_env_def)
  have b: "includes_str (or_empty (content_type (sample_http_request (js ''12345, 1234''))))
             (js ''multipart/form-data'')"
    by (simp add: sample_http_request_def or_empty_def js_def)
  have c: "formData (sample_http_request (js ''12345, 1234''))
           = Inr \<lparr>form_productCode = Some (FormString (js ''12345, 1234'')),
                  form_image =
                    Some (FormFile \<lparr>file_name = js ''a.png'', file_size = 4,
                                     file_type = js ''image/png'',
                                     file_base64 = js ''AAAA''\<rparr>)\<rparr>"
    by (simp add: sample_http_request_def)
  have d: "productCodes_of (js ''12345, 1234'') = [js ''12345'', js ''1234'']"
    by (simp add: productCodes_of_def normalizeProductCode_def trim_def isWhiteSpace_def
          comma_def hyphen_def underscore_def js_def)
  have e: "validateProductCode (js ''12345'') (PRODUCT_CODE_REGEX sample_config)"
    by (simp add: validateProductCode_def sample_config_def five_digits_def js_def isDigit_def)
  have f: "\<not> validateProductCode (js ''1234'') (PRODUCT_CODE_REGEX sample_config)"
    by (simp add: validateProductCode_def sample_config_def five_digits_def js_def)
  have g: "\<exists>code\<in>set (productCodes_of (js ''12345, 1234'')).
             \<not> validateProductCode code (PRODUCT_CODE_REGEX sample_config)"
    using f by (simp add: d)
  show ?thesis
    using POST_rejects_invalid_code [OF a b c _ g, of "\<lambda>code. js ''prompt''" None "js ''req''" "js ''id''"]
      a b d e f
    by simp
qed

section \<open>Properties of the extraction outside mock mode\<close>

lemma or_empty_eq: "or_empty v = (case v of None \<Rightarrow> [] | Some s \<Rightarrow> s)"
  by (simp add: or_empty_def split: option.splits)

lemma validate_keeps_blank:
  assumes "validateExtractionResult r config = (None, r')"
  shows "length (items r') = length (items r)
         \<and> (\<forall>i<length (items r). business_reg_no (items r ! i) = []
                \<longrightarrow> business_reg_no (items r' ! i) = [])
         \<and> map company_name (items r') = map company_name (items r)"
proof -
  have r': "items r' = map (\<lambda>item. if business_reg_no item \<noteq> []
                       then item\<lparr>business_reg_no := normalizeBusinessRegNo (business_reg_no item)\<rparr>
                       else item) (items r)"
    using assms by (auto simp: validateExtractionResult_def split: if_splits)
  show ?thesis
    unfolding r' by (simp add: comp_def if_distrib cong: if_cong)
qed

text \<open>
  C10. For every successful call of \<open>extractBusinessRegNo\<close> outside mock mode, the
  items come from the parsed items of the provider's answer with the registration
  number kept and the company name always a string, the empty string where the parsed
  item has none; and when \<open>validateExtractionResult\<close> accepts the result, an empty
  registration number stays empty and the company names are untouched.
\<close>

theorem extractBusinessRegNo_strings:
  assumes "\<not> MOCK_LLM config"
    and "extractBusinessRegNo env createExtractionPrompt availableModel uuid imageBase64 mimeType
           targetCode config = (Inr r, am, evs)"
  shows "\<exists>response.
           extractWithOpenAI env availableModel uuid imageBase64 mimeType config
             (createExtractionPrompt targetCode) = (Inr response, am, evs)
           \<and> map business_reg_no (items r) = map business_reg_no (result_items (result response))
           \<and> map company_name (items r)
               = map (\<lambda>item. Some (case company_name item of None \<Rightarrow> [] | Some s \<Rightarrow> s))
                   (result_items (result response))
           \<and> (\<forall>r'. validateExtractionResult r config = (None, r') \<longrightarrow>
                  length (items r') = length (items r)
                  \<and> (\<forall>i<length (items r). business_reg_no (items r ! i) = []
                         \<longrightarrow> business_reg_no (items r' ! i) = [])
                  \<and> map company_name (items r') = map company_name (items r))"
proof -
  obtain res am0 evs0 where call:
    "extractWithOpenAI env availableModel uuid imageBase64 mimeType config
       (createExtractionPrompt targetCode) = (res, am0, evs0)"
    by (cases "extractWithOpenAI env availableModel uuid imageBase64 mimeType config
                 (createExtractionPrompt targetCode)") auto
  show ?thesis
  proof (cases res)
    case (Inl e)
    with assms call show ?thesis
      by (simp add: extractBusinessRegNo_def)
  next
    case (Inr response)
    with assms call have r: "r = \<lparr>items =
                     map (\<lambda>item. \<lparr>product_code = product_code item,
                                  business_reg_no = or_empty (Some (business_reg_no item)),
                                  company_name = Some (or_empty (company_name item)),
                                  row_index = row_index item,
                                  raw_text = raw_text item\<rparr>)
                         (result_items (result response)),
                   total_found = result_total_found (result response),
                   confidence = result_confidence (result response),
                   provider = openai,
                   request_id = meta_client_request_id (metadata response),
                   client_request_id = Some (meta_client_request_id (metadata response)),
                   x_request_id = meta_x_request_id (metadata response)\<rparr>"
      and "am = am0" and "evs = evs0"
      by (simp_all add: extractBusinessRegNo_def)
    have a: "map business_reg_no (items r) = map business_reg_no (result_items (result response))"
      by (simp add: r or_empty_eq comp_def)
    have b: "map company_name (items r)
               = map (\<lambda>item. Some (case company_name item of None \<Rightarrow> [] | Some s \<Rightarrow> s))
                   (result_items (result response))"
      by (simp add: r or_empty_eq comp_def)
    show ?thesis
      using call Inr \<open>am = am0\<close> \<open>evs = evs0\<close> a b validate_keeps_blank [of r config]
      by blast
  qed
qed

lemma blank_row_call:
  "extractWithOpenAI (answering_env blank_row_text blank_row_json) None (js ''id'') (js ''AAAA'')
     (js ''image/png'') sample_config (js ''prompt'')
   = (Inr blank_row_response, Some PRIMARY_MODEL,
      [ModelsList, ResponsesCreate (sample_request PRIMARY_MODEL)])"
proof -
  let ?env = "answering_env blank_row_text blank_row_json"
  have k: "truthy (OPENAI_API_KEY sample_config)" "\<not> MOCK_LLM sample_config"
    by (simp_all add: truthy_def sample_config_def js_def)
  have m: "getAvailableModel ?env None (OPENAI_MODEL sample_config)
           = (PRIMARY_MODEL, Some PRIMARY_MODEL, [ModelsList])"
    by (simp add: getAvailableModel_def truthy_def sample_config_def answering_env_def
          modelPriority_def)
  have r: "\<lparr>req_model = PRIMARY_MODEL, req_input_text = js ''prompt'',
            req_image_url = js ''data:'' @ js ''image/png'' @ js '';base64,'' @ js ''AAAA'',
            req_client_request_id = js ''id''\<rparr> = sample_request PRIMARY_MODEL"
    by (simp add: sample_request_def js_def)
  have t: "trim blank_row_text = blank_row_text"
    by (simp add: blank_row_text_def trim_def dq_def js_def isWhiteSpace_def)
  have f: "fence_match blank_row_text = None"
    by (simp add: blank_row_text_def fence_match_def fence_def dq_def js_def)
  have b: "brace_match blank_row_text = Some blank_row_text"
    by (simp add: blank_row_text_def brace_match_def dq_def js_def)
  have ne: "blank_row_text \<noteq> []"
    by (simp add: blank_row_text_def js_def)
  have p: "parse_parsed blank_row_json
     = Inr \<lparr>result_items =
              [\<lparr>product_code = js ''12345'', business_reg_no = [],
                company_name = None, row_index = None, raw_text = None\<rparr>],
            result_total_found = JNum (Fin 1),
            result_confidence = Fin 1,
            result_raw_text = None\<rparr>"
    by (simp add: parse_parsed_def blank_row_json_def parse_item_def js_def)
  have pe: "parseExtractionResult (JSON_parse ?env) blank_row_text
     = Inr \<lparr>result_items =
              [\<lparr>product_code = js ''12345'', business_reg_no = [],
                company_name = None, row_index = None, raw_text = None\<rparr>],
            result_total_found = JNum (Fin 1),
            result_confidence = Fin 1,
            result_raw_text = None\<rparr>"
    by (simp add: parseExtractionResult_def t f b p parse_table_def answering_env_def)
  have o: "\<And>n q. responses_create ?env n q
             = Inr \<lparr>response_output =
                      Some [\<lparr>item_type = js ''message'',
                             item_content = Some [\<lparr>part_text = Some blank_row_text\<rparr>]\<rparr>]\<rparr>"
    by (simp add: answering_env_def)
  have tb: "try_body ?env 0 (sample_request PRIMARY_MODEL)
     = Inr blank_row_response"
    by (simp add: try_body_def o output_text_def ne pe blank_row_response_def)
      (simp add: sample_request_def)
  have c: "\<And>m. (sample_request PRIMARY_MODEL)\<lparr>req_model := m\<rparr> = sample_request m"
    by (simp add: sample_request_def)
  have l: "extract_loop ?env (sample_request PRIMARY_MODEL) 0 PRIMARY_MODEL None (Some PRIMARY_MODEL)
     = (Inr blank_row_response,
        Some PRIMARY_MODEL, [ResponsesCreate (sample_request PRIMARY_MODEL)])"
    by (subst extract_loop.simps) (simp add: c tb MAX_RETRIES_def)
  show ?thesis
    by (simp add: extractWithOpenAI_def k m r l after_events_def)
qed

lemma blank_row_run:
  "extractBusinessRegNo (answering_env blank_row_text blank_row_json) (\<lambda>code. js ''prompt'') None
     (js ''id'') (js ''AAAA'') (js ''image/png'') (js ''12345'') sample_config
   = (Inr blank_row_result, Some PRIMARY_MODEL,
      [ModelsList, ResponsesCreate (sample_request PRIMARY_MODEL)])"
proof -
  have k: "\<not> MOCK_LLM sample_config"
    by (simp add: sample_config_def)
  show ?thesis
    by (simp add: extractBusinessRegNo_def k blank_row_call blank_row_result_def or_empty_def
          blank_row_response_def)
qed

lemma blank_row_valid:
  "validateExtractionResult blank_row_result sample_config = (None, blank_row_result)"
  by (simp add: validateExtractionResult_def blank_row_result_def sample_config_def
        double_0_6_def)

theorem extractBusinessRegNo_strings_witness:
  "\<not> MOCK_LLM sample_config
   \<and> extractBusinessRegNo (answering_env blank_row_text blank_row_json) (\<lambda>code. js ''prompt'')
       None (js ''id'') (js ''AAAA'') (js ''image/png'') (js ''12345'') sample_config
     = (Inr blank_row_result, Some PRIMARY_MODEL,
        [ModelsList, ResponsesCreate (sample_request PRIMARY_MODEL)])
   \<and> validateExtractionResult blank_row_result sample_config = (None, blank_row_result)
   \<and> map business_reg_no (items blank_row_result) = [[]]
   \<and> (\<exists>response.
         extractWithOpenAI (answering_env blank_row_text blank_row_json) None (js ''id'')
           (js ''AAAA'') (js ''image/png'') sample_config (js ''prompt'')
         = (Inr response, Some PRIMARY_MODEL,
            [ModelsList, ResponsesCreate (sample_request PRIMARY_MODEL)])
         \<and> map company_name (result_items (result response)) = [None]
         \<and> map company_name (items blank_row_result) = [Some []])"
proof -
  have a: "\<not> MOCK_LLM sample_config"
    by (simp add: sample_config_def)
  have b: "map business_reg_no (items blank_row_result) = [[]]"
    "map company_name (items blank_row_result) = [Some []]"
    by (simp_all add: blank_row_result_def)
  obtain response where
    c: "extractWithOpenAI (answering_env blank_row_text blank_row_json) None (js ''id'')
           (js ''AAAA'') (js ''image/png'') sample_config (js ''prompt'')
         = (Inr response, Some PRIMARY_MODEL,
            [ModelsList, ResponsesCreate (sample_request PRIMARY_MODEL)])"
    using extractBusinessRegNo_strings [OF a blank_row_run] by blast
  from c have "response = blank_row_response"
    by (simp add: blank_row_call)
  then have e: "map company_name (result_items (result response)) = [None]"
    by (simp add: blank_row_response_def)
  have "\<exists>response.
         extractWithOpenAI (answering_env blank_row_text blank_row_json) None (js ''id'')
           (js ''AAAA'') (js ''image/png'') sample_config (js ''prompt'')
         = (Inr response, Some PRIMARY_MODEL,
            [ModelsList, ResponsesCreate (sample_request PRIMARY_MODEL)])
         \<and> map company_name (result_items (result response)) = [None]
         \<and> map company_name (items blank_row_result) = [Some []]"
    using c e b(2) by (intro exI [of _ response]) simp
  with a b(1) blank_row_run blank_row_valid show ?thesis
    by simp
qed

end
